theory Spec2Isabelle
  imports Main "HOL-Library.Word"
begin

section \<open>The external scanner of the VBA grammar (vba-parser/src/scanner.c)\<close>

text \<open>
  The file defines one token kind, five life-cycle hooks with constant bodies and the
  function \<open>tree_sitter_vba_external_scanner_scan\<close>. The scanner is driven by a host
  lexer through the handle \<open>TSLexer\<close>, whose declaration (\<open>tree_sitter/parser.h\<close>) and
  the C library's \<open>iswspace\<close> are not part of the repository.
\<close>

subsection \<open>C types\<close>

type_synonym int32_t = "32 word"
type_synonym TSSymbol = "16 word"
type_synonym c_unsigned = "32 word"
type_synonym c_char = "8 word"

text \<open>\<^verbatim>\<open>enum TokenType { LINE_CONTINUATION, };\<close> The only enumerator has the value 0.\<close>

datatype TokenType = LINE_CONTINUATION

definition symbol_of :: "TokenType \<Rightarrow> TSSymbol" where
  "symbol_of t = (case t of LINE_CONTINUATION \<Rightarrow> 0)"

text \<open>
  \<^verbatim>\<open>const bool *valid_symbols\<close> is an array indexed by the enumerators of \<open>TokenType\<close>;
  it is read at \<open>LINE_CONTINUATION\<close> only.
\<close>

type_synonym valid_symbols = "TokenType \<Rightarrow> bool"

text \<open>
  \<^verbatim>\<open>void *\<close>: the payload is the null pointer or the address of an object holding some
  bytes.
\<close>

datatype payload = NULL | Object "c_char list"

subsection \<open>The host lexer handle\<close>

text \<open>
  What the scanner does to the handle is observable through the characters it advances
  past, with the flag given to \<open>advance\<close>, and through assignments to \<open>result_symbol\<close>.
  The handle records both in order.
\<close>

datatype lexer_event = Advance int32_t bool | Assign TSSymbol

text \<open>
  Modelled from the spec: the lexer handle \<open>TSLexer\<close> of the host (declared in
  \<open>tree_sitter/parser.h\<close>, which is not in the repository). The spec gives it a current
  character (\<open>lookahead\<close>), \<open>advance(mark_significant)\<close> and a settable \<open>result_symbol\<close>.
  \<open>unread\<close> is the input from the cursor on, as code points; \<open>cursor\<close> counts the
  characters before it.
\<close>

record TSLexer =
  unread :: "int32_t list"
  cursor :: nat
  result_symbol :: TSSymbol
  trace :: "lexer_event list"

text \<open>
  Modelled from the spec: \<open>lexer->lookahead\<close>, the character at the cursor. At the end
  of the input the host presents the code point 0.
\<close>

definition lookahead :: "TSLexer \<Rightarrow> int32_t" where
  "lookahead lexer = (case unread lexer of [] \<Rightarrow> 0 | c # _ \<Rightarrow> c)"

text \<open>
  Modelled from the spec: \<open>lexer->advance(lexer, skip)\<close> moves the cursor past the
  current character; \<open>skip = true\<close> marks the character as whitespace that belongs to
  no token. At the end of the input there is nothing to advance past and the call changes
  nothing.
\<close>

definition advance :: "TSLexer \<Rightarrow> bool \<Rightarrow> TSLexer" where
  "advance lexer skip =
     (case unread lexer of
        [] \<Rightarrow> lexer
      | c # cs \<Rightarrow> lexer\<lparr>unread := cs, cursor := cursor lexer + 1,
                         trace := trace lexer @ [Advance c skip]\<rparr>)"

text \<open>The assignment \<^verbatim>\<open>lexer->result_symbol = s\<close>.\<close>

definition set_result_symbol :: "TSSymbol \<Rightarrow> TSLexer \<Rightarrow> TSLexer" where
  "set_result_symbol s lexer =
     lexer\<lparr>result_symbol := s, trace := trace lexer @ [Assign s]\<rparr>"

text \<open>
  Modelled from the spec: one whitespace classification an \<open>iswspace\<close> may implement,
  that of the "C" locale (space, tab, newline, vertical tab, form feed, carriage return).
  The scanner takes the classification as a parameter; this one instantiates it on
  concrete inputs.
\<close>

definition iswspace_C :: "int32_t \<Rightarrow> bool" where
  "iswspace_C c = (c = 0x20 \<or> c = 0x09 \<or> c = 0x0A \<or> c = 0x0B \<or> c = 0x0C \<or> c = 0x0D)"

subsection \<open>The life-cycle hooks\<close>

text \<open>\<^verbatim>\<open>void *tree_sitter_vba_external_scanner_create() { return NULL; }\<close>\<close>

definition tree_sitter_vba_external_scanner_create :: payload where
  "tree_sitter_vba_external_scanner_create = NULL"

text \<open>
  \<^verbatim>\<open>void tree_sitter_vba_external_scanner_destroy(void *_p) {}\<close>
\<close>

definition tree_sitter_vba_external_scanner_destroy :: "payload \<Rightarrow> unit" where
  "tree_sitter_vba_external_scanner_destroy p = ()"

text \<open>
  \<^verbatim>\<open>void tree_sitter_vba_external_scanner_reset(void *_p) {}\<close>
  The hooks that may write the scanner's state return the payload as it is after the call.
\<close>

definition tree_sitter_vba_external_scanner_reset :: "payload \<Rightarrow> payload" where
  "tree_sitter_vba_external_scanner_reset p = p"

text \<open>
  \<^verbatim>\<open>unsigned tree_sitter_vba_external_scanner_serialize(void *_p, char *_buffer) { return 0; }\<close>
  The result is the returned count with the buffer as it is after the call.
\<close>

definition tree_sitter_vba_external_scanner_serialize ::
    "payload \<Rightarrow> c_char list \<Rightarrow> c_unsigned \<times> c_char list" where
  "tree_sitter_vba_external_scanner_serialize p buffer = (0, buffer)"

text \<open>
  \<^verbatim>\<open>void tree_sitter_vba_external_scanner_deserialize(void *_p, const char *_b, unsigned _n) {}\<close>
\<close>

definition tree_sitter_vba_external_scanner_deserialize ::
    "payload \<Rightarrow> c_char list \<Rightarrow> c_unsigned \<Rightarrow> payload" where
  "tree_sitter_vba_external_scanner_deserialize p b n = p"

subsection \<open>scan\<close>

text \<open>
  \<^verbatim>\<open>while (iswspace(lexer->lookahead)) { lexer->advance(lexer, true); }\<close>
  The C library's \<open>iswspace\<close> depends on the platform and the locale, so the loop takes
  the classification as its first argument: what \<open>iswspace\<close> answers for each value of
  \<open>lookahead\<close>, the conversion of the argument to \<open>wint_t\<close> included. Nothing in the loop
  bounds the number of iterations, so the result is optional: \<open>None\<close> stands for a loop
  that does not end.
\<close>

partial_function (option) skip_whitespace ::
    "(int32_t \<Rightarrow> bool) \<Rightarrow> TSLexer \<Rightarrow> TSLexer option" where
  "skip_whitespace iswspace lexer =
     (if iswspace (lookahead lexer)
      then skip_whitespace iswspace (advance lexer True)
      else Some lexer)"

text \<open>
  \<^verbatim>\<open>
  bool tree_sitter_vba_external_scanner_scan(void *_payload, TSLexer *lexer, const bool *valid_symbols) {
    if (valid_symbols[LINE_CONTINUATION]) {
      while (iswspace(lexer->lookahead)) {
        lexer->advance(lexer, true);
      }
      if (lexer->lookahead == '_') {
        lexer->advance(lexer, false);
        lexer->result_symbol = LINE_CONTINUATION;
        return true;
      }
    }
    return false;
  }
  \<close>
  The result is the returned boolean with the lexer as it is after the call. \<open>'_'\<close> is
  the code point \<open>0x5F\<close>.
\<close>

definition tree_sitter_vba_external_scanner_scan ::
    "(int32_t \<Rightarrow> bool) \<Rightarrow> payload \<Rightarrow> TSLexer \<Rightarrow> valid_symbols \<Rightarrow> (bool \<times> TSLexer) option" where
  "tree_sitter_vba_external_scanner_scan iswspace p lexer valid_symbols =
     (if valid_symbols LINE_CONTINUATION then
        (case skip_whitespace iswspace lexer of
           None \<Rightarrow> None
         | Some lexer1 \<Rightarrow>
             if lookahead lexer1 = 0x5F then
               Some (True, set_result_symbol (symbol_of LINE_CONTINUATION) (advance lexer1 False))
             else Some (False, lexer1))
      else Some (False, lexer))"

section \<open>The whitespace loop\<close>

text \<open>The loop ends at once on a character that is not whitespace.\<close>

lemma skip_whitespace_stop:
  "\<not> isw (lookahead lx) \<Longrightarrow> skip_whitespace isw lx = Some lx"
  by (subst skip_whitespace.simps) simp

text \<open>
  The loop passes a run of whitespace characters one by one, each with \<open>skip = true\<close>.
\<close>

lemma skip_whitespace_run:
  "\<forall>c\<in>set ws. isw c \<Longrightarrow> unread lx = ws @ rest \<Longrightarrow>
   skip_whitespace isw lx =
   skip_whitespace isw (lx\<lparr>unread := rest, cursor := cursor lx + length ws,
                            trace := trace lx @ map (\<lambda>c. Advance c True) ws\<rparr>)"
proof (induction ws arbitrary: lx)
  case Nil
  then show ?case by (cases lx) simp
next
  case (Cons c cs)
  have "skip_whitespace isw lx = skip_whitespace isw (advance lx True)"
    using Cons.prems by (subst skip_whitespace.simps) (simp add: lookahead_def)
  also have "\<dots> = skip_whitespace isw ((advance lx True)\<lparr>unread := rest,
        cursor := cursor (advance lx True) + length cs,
        trace := trace (advance lx True) @ map (\<lambda>c. Advance c True) cs\<rparr>)"
    using Cons.prems by (intro Cons.IH) (simp_all add: advance_def)
  finally show ?case using Cons.prems by (simp add: advance_def)
qed

text \<open>
  Where the loop returns, it was not started at the end of the input with a classification
  that holds of the code point 0: there the host's \<open>advance\<close> changes nothing and the
  condition stays true.
\<close>

lemma skip_whitespace_eof:
  "skip_whitespace isw lx = Some lx' \<Longrightarrow> \<not> (isw 0 \<and> unread lx = [])"
proof (induction rule: skip_whitespace.raw_induct[rotated 1, consumes 1])
  case (1 f isw lx lx')
  then show ?case
    by (auto simp: lookahead_def advance_def split: if_splits)
qed

text \<open>The loop passes the longest leading run of whitespace.\<close>

lemma skip_whitespace_leading:
  "skip_whitespace isw lx =
   skip_whitespace isw (lx\<lparr>unread := dropWhile isw (unread lx),
        cursor := cursor lx + length (takeWhile isw (unread lx)),
        trace := trace lx @ map (\<lambda>c. Advance c True) (takeWhile isw (unread lx))\<rparr>)"
  by (rule skip_whitespace_run) (auto dest: set_takeWhileD)

lemma lookahead_dropWhile:
  assumes "unread lx' = dropWhile isw (unread lx)" "unread lx' = [] \<longrightarrow> \<not> isw 0"
  shows "\<not> isw (lookahead lx')"
proof (cases "unread lx'")
  case Nil
  with assms show ?thesis by (simp add: lookahead_def)
next
  case (Cons c cs)
  with assms(1) have "\<not> isw c"
    by (metis hd_dropWhile list.sel(1) list.distinct(1))
  with Cons show ?thesis by (simp add: lookahead_def)
qed

text \<open>
  The loop in closed form: it does not end exactly when the rest of the input is whitespace
  only and the code point 0 counts as whitespace; otherwise it stops behind the leading run.
\<close>

lemma skip_whitespace_eq:
  "skip_whitespace isw lx =
    (if isw 0 \<and> dropWhile isw (unread lx) = [] then None
     else Some (lx\<lparr>unread := dropWhile isw (unread lx),
        cursor := cursor lx + length (takeWhile isw (unread lx)),
        trace := trace lx @ map (\<lambda>c. Advance c True) (takeWhile isw (unread lx))\<rparr>))"
    (is "_ = (if ?stuck then None else Some ?L)")
proof (cases ?stuck)
  case True
  have "skip_whitespace isw lx = None"
  proof (cases "skip_whitespace isw lx")
    case (Some lx')
    then have "skip_whitespace isw ?L = Some lx'"
      using skip_whitespace_leading [of isw lx] by simp
    then have "\<not> (isw 0 \<and> unread ?L = [])"
      by (rule skip_whitespace_eof)
    with True show ?thesis by simp
  qed simp
  with True show ?thesis by simp
next
  case False
  then have "\<not> isw (lookahead ?L)"
    by (intro lookahead_dropWhile [of _ _ lx]) auto
  then have "skip_whitespace isw ?L = Some ?L"
    by (rule skip_whitespace_stop)
  with False show ?thesis
    using skip_whitespace_leading [of isw lx] by simp
qed

text \<open>scan in closed form.\<close>

lemma scan_eq:
  "tree_sitter_vba_external_scanner_scan isw p lx vs =
    (if vs LINE_CONTINUATION then
       if isw 0 \<and> dropWhile isw (unread lx) = [] then None
       else (case dropWhile isw (unread lx) of
               [] \<Rightarrow> Some (False, lx\<lparr>unread := [],
                     cursor := cursor lx + length (takeWhile isw (unread lx)),
                     trace := trace lx @ map (\<lambda>c. Advance c True) (takeWhile isw (unread lx))\<rparr>)
             | c # cs \<Rightarrow>
                 if c = 0x5F then
                   Some (True, lx\<lparr>unread := cs,
                     cursor := cursor lx + length (takeWhile isw (unread lx)) + 1,
                     result_symbol := symbol_of LINE_CONTINUATION,
                     trace := trace lx @ map (\<lambda>c. Advance c True) (takeWhile isw (unread lx))
                                @ [Advance 0x5F False, Assign (symbol_of LINE_CONTINUATION)]\<rparr>)
                 else
                   Some (False, lx\<lparr>unread := c # cs,
                     cursor := cursor lx + length (takeWhile isw (unread lx)),
                     trace := trace lx @ map (\<lambda>c. Advance c True) (takeWhile isw (unread lx))\<rparr>))
     else Some (False, lx))"
  by (simp add: tree_sitter_vba_external_scanner_scan_def skip_whitespace_eq lookahead_def
      advance_def set_result_symbol_def del: dropWhile_eq_Nil_conv split: list.splits)

lemma leading_run:
  assumes "\<forall>c\<in>set ws. isw c" and "\<not> isw c0"
  shows "takeWhile isw (ws @ c0 # rest) = ws" and "dropWhile isw (ws @ c0 # rest) = c0 # rest"
  using assms by (simp_all add: takeWhile_append2 dropWhile_append2)

section \<open>Properties of the scanner\<close>

text \<open>
  C1. When the line-continuation token is valid and the input at the cursor is a run
  \<open>ws\<close> of whitespace characters (possibly empty) followed by an underscore, scan returns
  true, the cursor ends one character past the underscore, and \<open>result_symbol\<close> is
  \<open>LINE_CONTINUATION\<close>. The classification is any \<open>iswspace\<close> that does not hold of the
  underscore.
\<close>

theorem scan_whitespace_then_underscore:
  assumes "\<not> iswspace 0x5F"
    and "\<forall>c\<in>set ws. iswspace c"
    and "valid_symbols LINE_CONTINUATION"
    and "unread lexer = ws @ 0x5F # rest"
  shows "tree_sitter_vba_external_scanner_scan iswspace p lexer valid_symbols =
    Some (True, lexer\<lparr>unread := rest, cursor := cursor lexer + length ws + 1,
                      result_symbol := symbol_of LINE_CONTINUATION,
                      trace := trace lexer @ map (\<lambda>c. Advance c True) ws
                                 @ [Advance 0x5F False, Assign (symbol_of LINE_CONTINUATION)]\<rparr>)"
proof -
  let ?L = "lexer\<lparr>unread := 0x5F # rest, cursor := cursor lexer + length ws,
                   trace := trace lexer @ map (\<lambda>c. Advance c True) ws\<rparr>"
  have "skip_whitespace iswspace lexer = skip_whitespace iswspace ?L"
    using assms(2,4) by (rule skip_whitespace_run)
  moreover have "skip_whitespace iswspace ?L = Some ?L"
    using assms(1) by (intro skip_whitespace_stop) (simp add: lookahead_def)
  ultimately have "skip_whitespace iswspace lexer = Some ?L"
    by simp
  then show ?thesis
    using assms(3)
    by (simp add: tree_sitter_vba_external_scanner_scan_def lookahead_def advance_def
        set_result_symbol_def)
qed

theorem scan_whitespace_then_underscore_witness:
  "\<not> iswspace_C 0x5F \<and> iswspace_C 0x20 \<and> iswspace_C 0x0A \<and> iswspace_C 0x09
   \<and> tree_sitter_vba_external_scanner_scan iswspace_C NULL
        \<lparr>unread = [0x20, 0x20, 0x20, 0x0A, 0x09, 0x5F], cursor = 0, result_symbol = 7, trace = []\<rparr>
        (\<lambda>t. True)
     = Some (True, \<lparr>unread = [], cursor = 6, result_symbol = 0,
               trace = [Advance 0x20 True, Advance 0x20 True, Advance 0x20 True,
                        Advance 0x0A True, Advance 0x09 True, Advance 0x5F False, Assign 0]\<rparr>)"
  using scan_whitespace_then_underscore [of iswspace_C "[0x20, 0x20, 0x20, 0x0A, 0x09]" "\<lambda>t. True"
      "\<lparr>unread = [0x20, 0x20, 0x20, 0x0A, 0x09, 0x5F], cursor = 0, result_symbol = 7, trace = []\<rparr>"
      "[]" NULL]
  by (simp add: iswspace_C_def symbol_of_def)

text \<open>
  C2. When the line-continuation token is not valid, scan returns false and leaves the
  lexer as it was, whatever the input: no character is consumed.
\<close>

theorem scan_not_valid:
  assumes "\<not> valid_symbols LINE_CONTINUATION"
  shows "tree_sitter_vba_external_scanner_scan iswspace p lexer valid_symbols = Some (False, lexer)"
  using assms by (simp add: tree_sitter_vba_external_scanner_scan_def)

theorem scan_not_valid_witness:
  "tree_sitter_vba_external_scanner_scan iswspace_C NULL
     \<lparr>unread = [0x20, 0x5F], cursor = 3, result_symbol = 7, trace = []\<rparr> (\<lambda>t. False)
   = Some (False, \<lparr>unread = [0x20, 0x5F], cursor = 3, result_symbol = 7, trace = []\<rparr>)"
  using scan_not_valid [of "\<lambda>t. False" iswspace_C NULL
      "\<lparr>unread = [0x20, 0x5F], cursor = 3, result_symbol = 7, trace = []\<rparr>"]
  by simp

text \<open>
  C3. When the line-continuation token is valid and the input at the cursor is a run
  \<open>ws\<close> of whitespace characters followed by a character that is neither whitespace nor
  the underscore, or by the end of the input (where the host presents the code point 0,
  taken not to be whitespace), scan returns false and the cursor has advanced past the
  whole run; \<open>result_symbol\<close> is unchanged.
\<close>

theorem scan_whitespace_without_underscore:
  assumes "\<forall>c\<in>set ws. iswspace c"
    and "valid_symbols LINE_CONTINUATION"
    and "unread lexer = ws @ rest"
    and "case rest of [] \<Rightarrow> \<not> iswspace 0 | c # cs \<Rightarrow> \<not> iswspace c \<and> c \<noteq> 0x5F"
  shows "tree_sitter_vba_external_scanner_scan iswspace p lexer valid_symbols =
    Some (False, lexer\<lparr>unread := rest, cursor := cursor lexer + length ws,
                       trace := trace lexer @ map (\<lambda>c. Advance c True) ws\<rparr>)"
proof -
  let ?L = "lexer\<lparr>unread := rest, cursor := cursor lexer + length ws,
                   trace := trace lexer @ map (\<lambda>c. Advance c True) ws\<rparr>"
  have la: "\<not> iswspace (lookahead ?L) \<and> lookahead ?L \<noteq> 0x5F"
    using assms(4) by (cases rest) (simp_all add: lookahead_def)
  have "skip_whitespace iswspace lexer = skip_whitespace iswspace ?L"
    using assms(1,3) by (rule skip_whitespace_run)
  moreover have "skip_whitespace iswspace ?L = Some ?L"
    using la by (intro skip_whitespace_stop) simp
  ultimately have "skip_whitespace iswspace lexer = Some ?L"
    by simp
  then show ?thesis
    using assms(2) la by (simp add: tree_sitter_vba_external_scanner_scan_def)
qed

theorem scan_whitespace_without_underscore_witness:
  "iswspace_C 0x20 \<and> \<not> iswspace_C 0x78 \<and> \<not> iswspace_C 0
   \<and> tree_sitter_vba_external_scanner_scan iswspace_C NULL
       \<lparr>unread = [0x20, 0x20, 0x78], cursor = 0, result_symbol = 7, trace = []\<rparr> (\<lambda>t. True)
     = Some (False, \<lparr>unread = [0x78], cursor = 2, result_symbol = 7,
                     trace = [Advance 0x20 True, Advance 0x20 True]\<rparr>)
   \<and> tree_sitter_vba_external_scanner_scan iswspace_C NULL
       \<lparr>unread = [0x09, 0x0A], cursor = 0, result_symbol = 7, trace = []\<rparr> (\<lambda>t. True)
     = Some (False, \<lparr>unread = [], cursor = 2, result_symbol = 7,
                     trace = [Advance 0x09 True, Advance 0x0A True]\<rparr>)"
  using scan_whitespace_without_underscore [of "[0x20, 0x20]" iswspace_C "\<lambda>t. True"
      "\<lparr>unread = [0x20, 0x20, 0x78], cursor = 0, result_symbol = 7, trace = []\<rparr>" "[0x78]" NULL]
    scan_whitespace_without_underscore [of "[0x09, 0x0A]" iswspace_C "\<lambda>t. True"
      "\<lparr>unread = [0x09, 0x0A], cursor = 0, result_symbol = 7, trace = []\<rparr>" "[]" NULL]
  by (simp add: iswspace_C_def)

text \<open>
  C4. \<open>result_symbol\<close> is assigned exactly when scan returns true. A call that returns
  false makes no assignment to it and leaves its value; a call that returns true makes one
  assignment, of \<open>LINE_CONTINUATION\<close>, as its last action.
\<close>

theorem scan_assigns_result_symbol_iff_true:
  assumes "tree_sitter_vba_external_scanner_scan iswspace p lexer valid_symbols = Some (b, lexer')"
  shows "\<exists>evs. trace lexer' = trace lexer @ evs \<and>
     (if b then result_symbol lexer' = symbol_of LINE_CONTINUATION
             \<and> (\<exists>adv. evs = adv @ [Assign (symbol_of LINE_CONTINUATION)]
                       \<and> (\<forall>s. Assign s \<notin> set adv))
      else result_symbol lexer' = result_symbol lexer \<and> (\<forall>s. Assign s \<notin> set evs))"
proof (cases "valid_symbols LINE_CONTINUATION")
  case False
  with assms have "b = False \<and> lexer' = lexer"
    by (simp add: scan_eq)
  then show ?thesis by simp
next
  case True
  let ?ws = "takeWhile iswspace (unread lexer)"
  have skip: "\<forall>s. Assign s \<notin> set (map (\<lambda>c. Advance c True) ?ws @ [Advance 0x5F False])"
    by auto
  show ?thesis
  proof (cases b)
    case True
    with assms \<open>valid_symbols LINE_CONTINUATION\<close>
    have "result_symbol lexer' = symbol_of LINE_CONTINUATION"
      and "trace lexer' = trace lexer @ (map (\<lambda>c. Advance c True) ?ws @ [Advance 0x5F False])
              @ [Assign (symbol_of LINE_CONTINUATION)]"
      by (auto simp: scan_eq split: if_splits list.splits)
    with True skip show ?thesis by (metis append_assoc)
  next
    case False
    with assms \<open>valid_symbols LINE_CONTINUATION\<close>
    have "result_symbol lexer' = result_symbol lexer"
      and "trace lexer' = trace lexer @ map (\<lambda>c. Advance c True) ?ws"
      by (auto simp: scan_eq split: if_splits list.splits)
    with False show ?thesis by auto
  qed
qed

theorem scan_assigns_result_symbol_iff_true_witness:
  "tree_sitter_vba_external_scanner_scan iswspace_C NULL
       \<lparr>unread = [0x20, 0x78], cursor = 0, result_symbol = 7, trace = []\<rparr> (\<lambda>t. True)
     = Some (False, \<lparr>unread = [0x78], cursor = 1, result_symbol = 7, trace = [Advance 0x20 True]\<rparr>)
   \<and> (\<exists>evs. [Advance 0x20 True] = [] @ evs \<and> (7 :: TSSymbol) = 7 \<and> (\<forall>s. Assign s \<notin> set evs))
   \<and> tree_sitter_vba_external_scanner_scan iswspace_C NULL
       \<lparr>unread = [0x20, 0x5F], cursor = 0, result_symbol = 7, trace = []\<rparr> (\<lambda>t. True)
     = Some (True, \<lparr>unread = [], cursor = 2, result_symbol = 0,
                    trace = [Advance 0x20 True, Advance 0x5F False, Assign 0]\<rparr>)
   \<and> (\<exists>evs. [Advance 0x20 True, Advance 0x5F False, Assign 0] = [] @ evs \<and> (0 :: TSSymbol) = symbol_of LINE_CONTINUATION
         \<and> (\<exists>adv. evs = adv @ [Assign (symbol_of LINE_CONTINUATION)] \<and> (\<forall>s. Assign s \<notin> set adv)))"
proof -
  have f: "tree_sitter_vba_external_scanner_scan iswspace_C NULL
       \<lparr>unread = [0x20, 0x78], cursor = 0, result_symbol = 7, trace = []\<rparr> (\<lambda>t. True)
     = Some (False, \<lparr>unread = [0x78], cursor = 1, result_symbol = 7, trace = [Advance 0x20 True]\<rparr>)"
    by (simp add: scan_eq iswspace_C_def)
  have t: "tree_sitter_vba_external_scanner_scan iswspace_C NULL
       \<lparr>unread = [0x20, 0x5F], cursor = 0, result_symbol = 7, trace = []\<rparr> (\<lambda>t. True)
     = Some (True, \<lparr>unread = [], cursor = 2, result_symbol = 0,
                    trace = [Advance 0x20 True, Advance 0x5F False, Assign 0]\<rparr>)"
    by (simp add: scan_eq iswspace_C_def symbol_of_def)
  show ?thesis
    using f t scan_assigns_result_symbol_iff_true [OF f] scan_assigns_result_symbol_iff_true [OF t]
    by simp
qed

text \<open>
  C5. With the line-continuation token valid, the characters a call advances past are the
  leading run of characters selected by \<open>iswspace\<close>, each with \<open>skip = true\<close> (not part of
  a token), followed, when the call returns true, by the underscore with \<open>skip = false\<close>
  (token content).
\<close>

theorem scan_advance_flags:
  assumes "valid_symbols LINE_CONTINUATION"
    and "tree_sitter_vba_external_scanner_scan iswspace p lexer valid_symbols = Some (b, lexer')"
  shows "trace lexer' = trace lexer
           @ map (\<lambda>c. Advance c True) (takeWhile iswspace (unread lexer))
           @ (if b then [Advance 0x5F False, Assign (symbol_of LINE_CONTINUATION)] else [])"
  using assms by (auto simp: scan_eq split: if_splits list.splits)

theorem scan_advance_flags_witness:
  "tree_sitter_vba_external_scanner_scan iswspace_C NULL
       \<lparr>unread = [0x20, 0x09, 0x5F, 0x0A], cursor = 4, result_symbol = 7, trace = [Assign 7]\<rparr> (\<lambda>t. True)
     = Some (True, \<lparr>unread = [0x0A], cursor = 7, result_symbol = 0,
                    trace = [Assign 7, Advance 0x20 True, Advance 0x09 True, Advance 0x5F False, Assign 0]\<rparr>)
   \<and> [Assign 7, Advance 0x20 True, Advance 0x09 True, Advance 0x5F False, Assign 0]
     = [Assign 7] @ map (\<lambda>c. Advance c True) (takeWhile iswspace_C [0x20, 0x09, 0x5F, 0x0A])
         @ [Advance 0x5F False, Assign (symbol_of LINE_CONTINUATION)]"
proof -
  have t: "tree_sitter_vba_external_scanner_scan iswspace_C NULL
       \<lparr>unread = [0x20, 0x09, 0x5F, 0x0A], cursor = 4, result_symbol = 7, trace = [Assign 7]\<rparr> (\<lambda>t. True)
     = Some (True, \<lparr>unread = [0x0A], cursor = 7, result_symbol = 0,
                    trace = [Assign 7, Advance 0x20 True, Advance 0x09 True, Advance 0x5F False, Assign 0]\<rparr>)"
    by (simp add: scan_eq iswspace_C_def symbol_of_def)
  show ?thesis
    using t scan_advance_flags [OF _ t] by simp
qed

text \<open>
  C6. scan is a function of the input at the cursor and of the validity of the
  line-continuation token only. Two calls that agree on these agree on whether they
  return, on the returned boolean, on the cursor movement, on the characters advanced past
  and the assignment to \<open>result_symbol\<close>, and on the remaining input, whatever the payload,
  the cursor position, the earlier value of \<open>result_symbol\<close> and the earlier history of the
  lexer are. Serializing and then deserializing leaves the payload as it was.
\<close>

theorem scan_depends_on_input_and_validity_only:
  assumes "unread lexer1 = unread lexer2"
    and "valid_symbols1 LINE_CONTINUATION = valid_symbols2 LINE_CONTINUATION"
  shows "map_option (\<lambda>(b, l). (b, cursor l - cursor lexer1, drop (length (trace lexer1)) (trace l),
                                 unread l, if b then Some (result_symbol l) else None))
           (tree_sitter_vba_external_scanner_scan iswspace p1 lexer1 valid_symbols1)
       = map_option (\<lambda>(b, l). (b, cursor l - cursor lexer2, drop (length (trace lexer2)) (trace l),
                                 unread l, if b then Some (result_symbol l) else None))
           (tree_sitter_vba_external_scanner_scan iswspace p2 lexer2 valid_symbols2)
     \<and> tree_sitter_vba_external_scanner_deserialize p1
          (take (unat (fst (tree_sitter_vba_external_scanner_serialize p1 buffer)))
                (snd (tree_sitter_vba_external_scanner_serialize p1 buffer)))
          (fst (tree_sitter_vba_external_scanner_serialize p1 buffer)) = p1"
  using assms
  by (simp add: scan_eq tree_sitter_vba_external_scanner_deserialize_def
      del: dropWhile_eq_Nil_conv split: list.splits)

theorem scan_depends_on_input_and_validity_only_witness:
  "map_option (\<lambda>(b, l). (b, cursor l - 0, drop (length ([] :: lexer_event list)) (trace l),
                                 unread l, if b then Some (result_symbol l) else None))
           (tree_sitter_vba_external_scanner_scan iswspace_C NULL
              \<lparr>unread = [0x20, 0x5F, 0x41], cursor = 0, result_symbol = 7, trace = []\<rparr> (\<lambda>t. True))
       = map_option (\<lambda>(b, l). (b, cursor l - 10, drop (length [Advance 0x41 False, Assign 3]) (trace l),
                                 unread l, if b then Some (result_symbol l) else None))
           (tree_sitter_vba_external_scanner_scan iswspace_C (Object [1, 2])
              \<lparr>unread = [0x20, 0x5F, 0x41], cursor = 10, result_symbol = 3,
                trace = [Advance 0x41 False, Assign 3]\<rparr> (\<lambda>t. True))"
  using scan_depends_on_input_and_validity_only [of
      "\<lparr>unread = [0x20, 0x5F, 0x41], cursor = 0, result_symbol = 7, trace = []\<rparr>"
      "\<lparr>unread = [0x20, 0x5F, 0x41], cursor = 10, result_symbol = 3,
        trace = [Advance 0x41 False, Assign 3]\<rparr>"
      "\<lambda>t. True" "\<lambda>t. True" iswspace_C NULL "Object [1, 2]"]
  by simp

text \<open>
  C7. serialize returns the count 0 and leaves the buffer alone. On a freshly created
  state, serialize followed by deserialize of the serialized bytes gives the state back,
  and scan behaves after the round trip as it does without it.
\<close>

theorem serialize_empty_and_round_trip:
  "fst (tree_sitter_vba_external_scanner_serialize p buffer) = 0
   \<and> snd (tree_sitter_vba_external_scanner_serialize p buffer) = buffer
   \<and> (let p0 = tree_sitter_vba_external_scanner_create;
           (n, bytes) = tree_sitter_vba_external_scanner_serialize p0 buffer;
           p1 = tree_sitter_vba_external_scanner_deserialize p0 (take (unat n) bytes) n
       in p1 = p0
          \<and> tree_sitter_vba_external_scanner_scan iswspace p1 lexer valid_symbols
            = tree_sitter_vba_external_scanner_scan iswspace p0 lexer valid_symbols)"
  by (simp add: tree_sitter_vba_external_scanner_serialize_def
      tree_sitter_vba_external_scanner_deserialize_def)

text \<open>
  C8. Every call of scan returns, on every (finite) input, for every classification that
  does not hold of the code point 0 the host presents at the end of the input. The call
  advances past at most the leading whitespace run and one more character, and performs at
  most one more action (the assignment).
\<close>

theorem scan_terminates:
  assumes "\<not> iswspace 0"
  shows "\<exists>b lexer' evs.
      tree_sitter_vba_external_scanner_scan iswspace p lexer valid_symbols = Some (b, lexer')
    \<and> trace lexer' = trace lexer @ evs
    \<and> length evs \<le> length (takeWhile iswspace (unread lexer)) + 2
    \<and> cursor lexer' \<le> cursor lexer + length (takeWhile iswspace (unread lexer)) + 1"
  using assms by (cases "valid_symbols LINE_CONTINUATION") (auto simp: scan_eq split: list.splits)

theorem scan_terminates_witness:
  "\<not> iswspace_C 0
   \<and> (\<exists>b lexer' evs.
      tree_sitter_vba_external_scanner_scan iswspace_C NULL
        \<lparr>unread = [0x20, 0x0A], cursor = 0, result_symbol = 7, trace = []\<rparr> (\<lambda>t. True) = Some (b, lexer')
    \<and> trace lexer' = [] @ evs
    \<and> length evs \<le> length (takeWhile iswspace_C [0x20, 0x0A]) + 2
    \<and> cursor lexer' \<le> 0 + length (takeWhile iswspace_C [0x20, 0x0A]) + 1)"
  using scan_terminates [of iswspace_C NULL
        "\<lparr>unread = [0x20, 0x0A], cursor = 0, result_symbol = 7, trace = []\<rparr>" "\<lambda>t. True"]
  by (simp add: iswspace_C_def)

text \<open>
  C9. When the line-continuation token is valid and the first character after the leading
  whitespace is the underscore, scan returns true whatever follows the underscore, consumes
  nothing past it, and replacing what follows the underscore changes nothing in the result
  but the input that remains.
\<close>

theorem scan_ignores_input_after_underscore:
  assumes "\<not> iswspace 0x5F"
    and "\<forall>c\<in>set ws. iswspace c"
    and "valid_symbols LINE_CONTINUATION"
    and "unread lexer = ws @ 0x5F # rest"
  shows "\<exists>lexer'.
      tree_sitter_vba_external_scanner_scan iswspace p lexer valid_symbols = Some (True, lexer')
    \<and> unread lexer' = rest
    \<and> cursor lexer' = cursor lexer + length ws + 1
    \<and> (\<forall>rest'. tree_sitter_vba_external_scanner_scan iswspace p
                   (lexer\<lparr>unread := ws @ 0x5F # rest'\<rparr>) valid_symbols
                 = Some (True, lexer'\<lparr>unread := rest'\<rparr>))"
  using assms by (simp add: scan_eq leading_run)

theorem scan_ignores_input_after_underscore_witness:
  "\<not> iswspace_C 0x5F \<and> iswspace_C 0x20
   \<and> (\<exists>lexer'.
      tree_sitter_vba_external_scanner_scan iswspace_C NULL
          \<lparr>unread = [0x20, 0x5F, 0x41, 0x42], cursor = 0, result_symbol = 7, trace = []\<rparr> (\<lambda>t. True)
        = Some (True, lexer')
    \<and> unread lexer' = [0x41, 0x42]
    \<and> cursor lexer' = 0 + length [0x20 :: int32_t] + 1
    \<and> (\<forall>rest'. tree_sitter_vba_external_scanner_scan iswspace_C NULL
                   (\<lparr>unread = [0x20, 0x5F, 0x41, 0x42], cursor = 0, result_symbol = 7, trace = []\<rparr>
                      \<lparr>unread := [0x20] @ 0x5F # rest'\<rparr>) (\<lambda>t. True)
                 = Some (True, lexer'\<lparr>unread := rest'\<rparr>)))"
  using scan_ignores_input_after_underscore [of iswspace_C "[0x20]" "\<lambda>t. True"
      "\<lparr>unread = [0x20, 0x5F, 0x41, 0x42], cursor = 0, result_symbol = 7, trace = []\<rparr>"
      "[0x41, 0x42]" NULL]
  by (simp add: iswspace_C_def)

text \<open>
  C10. deserialize leaves the state as it is for every buffer and every length: its result
  does not depend on either, and scan behaves after it as before.
\<close>

theorem deserialize_ignores_arguments:
  "tree_sitter_vba_external_scanner_deserialize p b n = p
   \<and> tree_sitter_vba_external_scanner_deserialize p b n
     = tree_sitter_vba_external_scanner_deserialize p b' n'
   \<and> tree_sitter_vba_external_scanner_scan iswspace
        (tree_sitter_vba_external_scanner_deserialize p b n) lexer valid_symbols
     = tree_sitter_vba_external_scanner_scan iswspace p lexer valid_symbols"
  by (simp add: tree_sitter_vba_external_scanner_deserialize_def)

end
